theory Spec2Isabelle
  imports Complex_Main
begin

section \<open>Embedding-based retrieval core of \<open>main.py\<close> and \<open>9_agno_qa.py\<close>\<close>

text \<open>
  The two scripts share, line for line, \<open>load_content\<close>, \<open>create_embeddings\<close>,
  \<open>save_embeddings\<close>, \<open>load_embeddings\<close> and \<open>find_most_similar\<close>. They differ in the
  caller: \<open>answer_question\<close> in \<open>main.py\<close> reloads the store on every question,
  \<open>get_relevant_context\<close> in \<open>9_agno_qa.py\<close> reads a module-level global that is loaded once.

  Conventions of the model.
  \<^item> A Python exception is a value \<open>Inl e\<close> of a sum type; a normal return is \<open>Inr v\<close>.
  \<^item> The components of the vectors are finite numbers, modelled as exact reals (no rounding,
    no overflow). What floating-point division adds to them, the values not-a-number and the
    two infinities, is the type \<open>fl\<close> of the similarity scores.
  \<^item> A text is a \<open>string\<close>; a character stands for a code point below 256.
\<close>

subsection \<open>Exceptions\<close>

datatype error =
    FileNotFoundError   \<comment> \<open>\<open>open\<close> on a missing file or directory\<close>
  | ValueError          \<comment> \<open>numpy: inhomogeneous shape, shapes not aligned\<close>
  | AxisError           \<comment> \<open>numpy: axis out of bounds for the array's dimension\<close>
  | IndexError          \<comment> \<open>list index out of range\<close>
  | ProviderError       \<comment> \<open>the embedding or the completion call failed\<close>

subsection \<open>Floating-point results of a division\<close>

datatype fl = Num real | PInf | NInf | NaN

text \<open>
  numpy's true division of two finite floats: dividing by zero does not raise (it emits a
  warning); \<open>0/0\<close> is not-a-number and \<open>x/0\<close> is an infinity of the sign of \<open>x\<close>.
\<close>

definition fdiv :: "real \<Rightarrow> real \<Rightarrow> fl" where
  "fdiv a b =
     (if b \<noteq> 0 then Num (a / b)
      else if a = 0 then NaN
      else if 0 < a then PInf
      else NInf)"

text \<open>The IEEE comparison \<open><\<close>: every comparison with not-a-number is false.\<close>

fun fl_less :: "fl \<Rightarrow> fl \<Rightarrow> bool" where
  "fl_less NaN _ = False"
| "fl_less _ NaN = False"
| "fl_less (Num a) (Num b) = (a < b)"
| "fl_less (Num a) PInf = True"
| "fl_less (Num a) NInf = False"
| "fl_less PInf _ = False"
| "fl_less NInf NInf = False"
| "fl_less NInf _ = True"

fun isnan :: "fl \<Rightarrow> bool" where
  "isnan NaN = True"
| "isnan _ = False"

text \<open>
  The order numpy sorts floats by: \<open>a < b || (b != b && a == a)\<close>, which puts every
  not-a-number after every number.
\<close>

definition np_lt :: "fl \<Rightarrow> fl \<Rightarrow> bool" where
  "np_lt a b = (fl_less a b \<or> (isnan b \<and> \<not> isnan a))"

definition np_le :: "fl \<Rightarrow> fl \<Rightarrow> bool" where
  "np_le a b = (\<not> np_lt b a)"

subsection \<open>The numpy operations \<open>find_most_similar\<close> calls\<close>

text \<open>The arrays \<open>np.array\<close> builds from a list of lists of floats.\<close>

datatype ndarray =
    Vec "real list"          \<comment> \<open>one-dimensional, shape \<open>(n,)\<close>\<close>
  | Mat "real list list"     \<comment> \<open>two-dimensional, shape \<open>(n, d)\<close> with \<open>n \<ge> 1\<close>\<close>

text \<open>The values \<open>np.dot\<close> returns for such an array and a one-dimensional array.\<close>

datatype dot_result =
    Scalar real
  | Vector "real list"

text \<open>
  \<open>np.array\<close> of a list of lists of floats. The empty list gives the one-dimensional array
  of shape \<open>(0,)\<close>; rows of one common length give a matrix; rows of different lengths raise
  \<open>ValueError\<close> (inhomogeneous shape).
\<close>

definition np_array :: "real list list \<Rightarrow> error + ndarray" where
  "np_array rows =
     (case rows of
        [] \<Rightarrow> Inr (Vec [])
      | r # rs \<Rightarrow>
          if list_all (\<lambda>r'. length r' = length r) rs then Inr (Mat rows)
          else Inl ValueError)"

fun dot :: "real list \<Rightarrow> real list \<Rightarrow> real" where
  "dot (x # xs) (y # ys) = x * y + dot xs ys"
| "dot _ _ = 0"

text \<open>
  \<open>np.dot(a, q)\<close> for a one-dimensional \<open>q\<close>: the inner product of two vectors is a scalar,
  a matrix times a vector is the vector of the rows' inner products, and the last axis of
  \<open>a\<close> must have the length of \<open>q\<close>.
\<close>

fun np_dot :: "ndarray \<Rightarrow> real list \<Rightarrow> error + dot_result" where
  "np_dot (Vec xs) q =
     (if length xs = length q then Inr (Scalar (dot xs q)) else Inl ValueError)"
| "np_dot (Mat rows) q =
     (if length (hd rows) = length q then Inr (Vector (map (\<lambda>r. dot r q) rows))
      else Inl ValueError)"

text \<open>
  \<open>np.linalg.norm(x)\<close> of a vector: the square root of \<open>x.dot(x)\<close>. The exact norm is
  zero for the all-zero vector only. In float64 the computed norm also underflows to \<open>0.0\<close>
  for a vector of tiny components and overflows for huge ones; the properties below that
  speak of a score are therefore stated for all-zero vectors, where products, sums and the
  square root are exact in float64 too, or hold for every list of scores.
\<close>

definition norm2 :: "real list \<Rightarrow> real" where
  "norm2 xs = sqrt (dot xs xs)"

text \<open>\<open>np.linalg.norm(a, axis=1)\<close>: the norm of every row; an array with no axis 1 raises.\<close>

fun norm_axis1 :: "ndarray \<Rightarrow> error + real list" where
  "norm_axis1 (Mat rows) = Inr (map norm2 rows)"
| "norm_axis1 (Vec xs) = Inl AxisError"

text \<open>
  The division by a one-dimensional array: element by element for a vector (here both
  have one entry for every row of the matrix), a scalar is divided by every entry.
\<close>

fun divide_by :: "dot_result \<Rightarrow> real list \<Rightarrow> fl list" where
  "divide_by (Vector ds) ns = map (\<lambda>(d, n). fdiv d n) (zip ds ns)"
| "divide_by (Scalar d) ns = map (\<lambda>n. fdiv d n) ns"

text \<open>
  \<open>np.dot(E, q) / (np.linalg.norm(E, axis=1) * np.linalg.norm(q))\<close>, evaluated left to
  right: the product first, then the row norms, then the norm of the query.
\<close>

definition similarities :: "real list \<Rightarrow> real list list \<Rightarrow> error + fl list" where
  "similarities query_embedding embeddings =
     (case np_array embeddings of
        Inl e \<Rightarrow> Inl e
      | Inr embeddings_array \<Rightarrow>
          (case np_dot embeddings_array query_embedding of
             Inl e \<Rightarrow> Inl e
           | Inr d \<Rightarrow>
               (case norm_axis1 embeddings_array of
                  Inl e \<Rightarrow> Inl e
                | Inr ns \<Rightarrow>
                    Inr (divide_by d (map (\<lambda>n. n * norm2 query_embedding) ns)))))"

text \<open>
  \<open>np.argsort\<close>: the indices that sort the array ascending. The model is the insertion
  sort of the indices by \<open>np_lt\<close>, which keeps equal values in index order; numpy's default
  sort kind does not promise that, and no theorem below relies on it.
\<close>

fun ins :: "fl list \<Rightarrow> nat \<Rightarrow> nat list \<Rightarrow> nat list" where
  "ins s i [] = [i]"
| "ins s i (j # js) = (if np_lt (s ! j) (s ! i) then j # ins s i js else i # j # js)"

definition argsort :: "fl list \<Rightarrow> nat list" where
  "argsort s = foldr (ins s) [0..<length s] []"

text \<open>
  The slice \<open>xs[start:]\<close>: a negative start counts from the end and is clipped at the
  front, a start past the end gives the empty list.
\<close>

definition slice_from :: "int \<Rightarrow> 'a list \<Rightarrow> 'a list" where
  "slice_from start xs =
     (let n = int (length xs)
      in drop (nat (if start < 0 then max 0 (n + start) else min start n)) xs)"

text \<open>\<open>[texts[i] for i in top_indices]\<close>: the first index out of range raises.\<close>

fun lookup_all :: "'a list \<Rightarrow> nat list \<Rightarrow> error + 'a list" where
  "lookup_all texts [] = Inr []"
| "lookup_all texts (i # is) =
     (if i < length texts then
        (case lookup_all texts is of Inl e \<Rightarrow> Inl e | Inr ts \<Rightarrow> Inr (texts ! i # ts))
      else Inl IndexError)"

subsection \<open>\<open>find_most_similar\<close>\<close>

text \<open>The local \<open>top_indices = np.argsort(similarities)[-top_k:]\<close>.\<close>

definition top_indices :: "real list \<Rightarrow> real list list \<Rightarrow> int \<Rightarrow> error + nat list" where
  "top_indices query_embedding embeddings top_k =
     (case similarities query_embedding embeddings of
        Inl e \<Rightarrow> Inl e
      | Inr sims \<Rightarrow> Inr (slice_from (- top_k) (argsort sims)))"

definition find_most_similar ::
  "real list \<Rightarrow> real list list \<Rightarrow> 'a list \<Rightarrow> int \<Rightarrow> error + 'a list" where
  "find_most_similar query_embedding embeddings texts top_k =
     (case top_indices query_embedding embeddings top_k of
        Inl e \<Rightarrow> Inl e
      | Inr idx \<Rightarrow> lookup_all texts idx)"

text \<open>The default of the parameter \<open>top_k\<close>.\<close>

definition default_top_k :: int where
  "default_top_k = 3"

subsection \<open>\<open>load_content\<close>\<close>

definition LF :: char where
  "LF = CHR 0x0A"

definition CR :: char where
  "CR = CHR 0x0D"

text \<open>
  The characters \<open>str.strip()\<close> removes, among the code points below 256: tab, line feed,
  vertical tab, form feed, carriage return, the four separators \<open>0x1C\<close> to \<open>0x1F\<close>, space,
  next line \<open>0x85\<close> and no-break space \<open>0xA0\<close>.
\<close>

definition is_space :: "char \<Rightarrow> bool" where
  "is_space c =
     (let n = (of_char c :: nat)
      in (9 \<le> n \<and> n \<le> 13) \<or> (28 \<le> n \<and> n \<le> 32) \<or> n = 133 \<or> n = 160)"

definition strip :: "string \<Rightarrow> string" where
  "strip s = rev (dropWhile is_space (rev (dropWhile is_space s)))"

text \<open>
  A file opened with \<open>open(path, "r")\<close> reads in universal-newlines mode: \<open>\r\n\<close> and a
  lone \<open>\r\<close> arrive as \<open>\n\<close>.
\<close>

fun translate_newlines :: "string \<Rightarrow> string" where
  "translate_newlines [] = []"
| "translate_newlines [c] = (if c = CR then [LF] else [c])"
| "translate_newlines (c # d # cs) =
     (if c = CR \<and> d = LF then LF # translate_newlines cs
      else if c = CR then LF # translate_newlines (d # cs)
      else c # translate_newlines (d # cs))"

text \<open>
  Iterating over the file yields its lines, each with its final \<open>\n\<close>; the last line may
  lack one, and an empty rest yields nothing.
\<close>

fun split_lines :: "string \<Rightarrow> string \<Rightarrow> string list" where
  "split_lines acc [] = (if acc = [] then [] else [acc])"
| "split_lines acc (c # cs) =
     (if c = LF then (acc @ [c]) # split_lines [] cs else split_lines (acc @ [c]) cs)"

definition file_lines :: "string \<Rightarrow> string list" where
  "file_lines content = split_lines [] (translate_newlines content)"

subsection \<open>The files and the module global\<close>

text \<open>
  The persisted artifact \<open>{"texts": [...], "embeddings": [[...], ...]}\<close>. The two lists
  are independent fields: nothing in the type makes them equally long or the rows equally
  wide. \<open>json.dump\<close> followed by \<open>json.load\<close> gives back equal strings and equal floats
  (floats are written in their shortest round-tripping form), so the file is modelled as
  holding the value itself.
\<close>

record artifact =
  doc_texts :: "string list"
  doc_embeddings :: "real list list"

datatype store_file =
    NoDirectory        \<comment> \<open>\<open>embedding_data/\<close> does not exist\<close>
  | NoFile             \<comment> \<open>the directory exists, \<open>embedding.json\<close> does not\<close>
  | File artifact

record world =
  content_txt :: "string option"      \<comment> \<open>\<open>content_data/content.txt\<close>, if it exists\<close>
  embedding_json :: store_file        \<comment> \<open>\<open>embedding_data/embedding.json\<close>\<close>
  stored_data :: "artifact option"   \<comment> \<open>the global of \<open>9_agno_qa.py\<close>; \<open>None\<close> as in Python\<close>

definition load_content :: "world \<Rightarrow> (error + string list) \<times> world" where
  "load_content w =
     (case content_txt w of
        None \<Rightarrow> (Inl FileNotFoundError, w)
      | Some content \<Rightarrow>
          (Inr [strip line. line \<leftarrow> file_lines content, strip line \<noteq> []], w))"

subsection \<open>\<open>create_embeddings\<close>, \<open>save_embeddings\<close>, \<open>load_embeddings\<close>\<close>

text \<open>
  The embedding provider is a parameter: \<open>emb text\<close> is the vector of
  \<open>response.data[0].embedding\<close>, or the exception of the call.
\<close>

type_synonym embedder = "string \<Rightarrow> error + real list"

fun create_embeddings :: "embedder \<Rightarrow> string list \<Rightarrow> error + real list list" where
  "create_embeddings emb [] = Inr []"
| "create_embeddings emb (t # ts) =
     (case emb t of
        Inl e \<Rightarrow> Inl e
      | Inr v \<Rightarrow>
          (case create_embeddings emb ts of Inl e \<Rightarrow> Inl e | Inr vs \<Rightarrow> Inr (v # vs)))"

text \<open>\<open>open(path, "w")\<close> creates or truncates the file and needs its directory.\<close>

definition save_embeddings ::
  "string list \<Rightarrow> real list list \<Rightarrow> world \<Rightarrow> (error + unit) \<times> world" where
  "save_embeddings texts embeddings w =
     (case embedding_json w of
        NoDirectory \<Rightarrow> (Inl FileNotFoundError, w)
      | _ \<Rightarrow>
          (Inr (),
           w\<lparr>embedding_json := File \<lparr>doc_texts = texts, doc_embeddings = embeddings\<rparr>\<rparr>))"

definition load_embeddings :: "world \<Rightarrow> (error + artifact) \<times> world" where
  "load_embeddings w =
     (case embedding_json w of
        File data \<Rightarrow> (Inr data, w)
      | _ \<Rightarrow> (Inl FileNotFoundError, w))"

subsection \<open>The query path\<close>

text \<open>\<open>sep.join(parts)\<close>.\<close>

fun str_join :: "string \<Rightarrow> string list \<Rightarrow> string" where
  "str_join sep [] = []"
| "str_join sep [t] = t"
| "str_join sep (t # u # us) = t @ sep @ str_join sep (u # us)"

text \<open>
  The completion provider is a parameter: \<open>chat system user\<close> is
  \<open>response.choices[0].message.content\<close> for the two messages, or the exception of the call.
\<close>

type_synonym completer = "string \<Rightarrow> string \<Rightarrow> error + string"

definition system_prompt :: string where
  "system_prompt =
     ''You are a helpful assistant. Answer the question based on the provided context. If the answer cannot be found in the context, say so.''"

definition user_prompt :: "string \<Rightarrow> string \<Rightarrow> string" where
  "user_prompt context question =
     ''Context:'' @ [LF] @ context @ [LF, LF] @ ''Question: '' @ question"

text \<open>
  The context of \<open>answer_question\<close>, up to the line \<open>context = "\n\n".join(relevant_texts)\<close>:
  the question is embedded, the store is loaded from its file, and \<open>find_most_similar\<close>
  is called without \<open>top_k\<close>.
\<close>

definition answer_context :: "embedder \<Rightarrow> world \<Rightarrow> string \<Rightarrow> (error + string) \<times> world" where
  "answer_context emb w question =
     (case emb question of
        Inl e \<Rightarrow> (Inl e, w)
      | Inr question_embedding \<Rightarrow>
          (case load_embeddings w of
             (Inl e, w1) \<Rightarrow> (Inl e, w1)
           | (Inr data, w1) \<Rightarrow>
               (case find_most_similar question_embedding (doc_embeddings data)
                       (doc_texts data) default_top_k of
                  Inl e \<Rightarrow> (Inl e, w1)
                | Inr relevant_texts \<Rightarrow> (Inr (str_join [LF, LF] relevant_texts), w1))))"

definition answer_question ::
  "embedder \<Rightarrow> completer \<Rightarrow> world \<Rightarrow> string \<Rightarrow> (error + string) \<times> world" where
  "answer_question emb chat w question =
     (case answer_context emb w question of
        (Inl e, w1) \<Rightarrow> (Inl e, w1)
      | (Inr context, w1) \<Rightarrow> (chat system_prompt (user_prompt context question), w1))"

text \<open>
  The module body of \<open>9_agno_qa.py\<close>: \<open>stored_data\<close> is \<open>None\<close>, then the result of
  \<open>load_embeddings()\<close> unless that raises.
\<close>

definition module_init :: "world \<Rightarrow> world" where
  "module_init w =
     (case load_embeddings w of
        (Inl e, w1) \<Rightarrow> w1\<lparr>stored_data := None\<rparr>
      | (Inr data, w1) \<Rightarrow> w1\<lparr>stored_data := Some data\<rparr>)"

definition get_relevant_context ::
  "embedder \<Rightarrow> world \<Rightarrow> string \<Rightarrow> (error + string) \<times> world" where
  "get_relevant_context emb w query =
     (case stored_data w of
        None \<Rightarrow> (Inr ''Error: Embeddings not loaded'', w)
      | Some data \<Rightarrow>
          (case emb query of
             Inl e \<Rightarrow> (Inl e, w)
           | Inr query_embedding \<Rightarrow>
               (case find_most_similar query_embedding (doc_embeddings data)
                       (doc_texts data) default_top_k of
                  Inl e \<Rightarrow> (Inl e, w)
                | Inr relevant_texts \<Rightarrow> (Inr (str_join [LF, LF] relevant_texts), w))))"

subsection \<open>Words of the specification\<close>

text \<open>A blank line: empty, or whitespace only.\<close>

definition blank :: "string \<Rightarrow> bool" where
  "blank line = list_all is_space line"

section \<open>Properties\<close>

subsection \<open>The sort order and \<open>argsort\<close>\<close>

lemma np_le_refl: "np_le a a"
  by (cases a) (simp_all add: np_le_def np_lt_def)

lemma np_le_trans: "np_le a b \<Longrightarrow> np_le b c \<Longrightarrow> np_le a c"
  by (cases a; cases b; cases c) (simp_all add: np_le_def np_lt_def)

lemma np_lt_imp_le: "np_lt a b \<Longrightarrow> np_le a b"
  by (cases a; cases b) (simp_all add: np_le_def np_lt_def)

lemma np_le_Num: "np_le (Num a) (Num b) = (a \<le> b)"
  by (auto simp add: np_le_def np_lt_def)

lemma set_ins: "set (ins s i js) = insert i (set js)"
  by (induction js) auto

lemma length_ins: "length (ins s i js) = Suc (length js)"
  by (induction js) auto

lemma distinct_ins: "i \<notin> set js \<Longrightarrow> distinct js \<Longrightarrow> distinct (ins s i js)"
  by (induction js) (auto simp add: set_ins)

lemma sorted_ins:
  "sorted_wrt (\<lambda>i j. np_le (s ! i) (s ! j)) js \<Longrightarrow>
   sorted_wrt (\<lambda>i j. np_le (s ! i) (s ! j)) (ins s i js)"
proof (induction js)
  case Nil
  then show ?case by simp
next
  case (Cons j js)
  show ?case
  proof (cases "np_lt (s ! j) (s ! i)")
    case True
    then have "np_le (s ! j) (s ! i)" by (rule np_lt_imp_le)
    with Cons True show ?thesis by (auto simp add: set_ins)
  next
    case False
    then have ij: "np_le (s ! i) (s ! j)" by (simp add: np_le_def)
    have "\<forall>x \<in> set js. np_le (s ! i) (s ! x)"
      using Cons.prems ij by (auto intro: np_le_trans)
    with Cons.prems ij False show ?thesis by simp
  qed
qed

lemma set_foldr_ins: "set (foldr (ins s) xs []) = set xs"
  by (induction xs) (simp_all add: set_ins)

lemma length_foldr_ins: "length (foldr (ins s) xs []) = length xs"
  by (induction xs) (simp_all add: length_ins)

lemma distinct_foldr_ins: "distinct xs \<Longrightarrow> distinct (foldr (ins s) xs [])"
  by (induction xs) (simp_all add: distinct_ins set_foldr_ins)

lemma sorted_foldr_ins: "sorted_wrt (\<lambda>i j. np_le (s ! i) (s ! j)) (foldr (ins s) xs [])"
  by (induction xs) (simp_all add: sorted_ins)

lemma set_argsort: "set (argsort s) = {0..<length s}"
  by (simp add: argsort_def set_foldr_ins)

lemma length_argsort: "length (argsort s) = length s"
  by (simp add: argsort_def length_foldr_ins)

lemma distinct_argsort: "distinct (argsort s)"
  by (simp add: argsort_def distinct_foldr_ins)

lemma sorted_argsort: "sorted_wrt (\<lambda>i j. np_le (s ! i) (s ! j)) (argsort s)"
  by (simp add: argsort_def sorted_foldr_ins)

lemma slice_from_drop: "\<exists>m. slice_from start xs = drop m xs"
  by (auto simp add: slice_from_def Let_def)

lemma slice_from_last: "1 \<le> k \<Longrightarrow> slice_from (- k) xs = drop (length xs - nat k) xs"
  by (auto simp add: slice_from_def Let_def max_def intro!: arg_cong2[where f=drop])

lemma length_slice_from_last: "1 \<le> k \<Longrightarrow> length (slice_from (- k) xs) = min (nat k) (length xs)"
  by (simp add: slice_from_last)

lemma lookup_all_eq:
  "lookup_all texts idx =
     (if list_all (\<lambda>i. i < length texts) idx then Inr (map ((!) texts) idx) else Inl IndexError)"
  by (induction idx) auto

lemma similarities_Mat:
  "es \<noteq> [] \<Longrightarrow> list_all (\<lambda>r. length r = length q) es \<Longrightarrow>
   similarities q es = Inr (map (\<lambda>r. fdiv (dot r q) (norm2 r * norm2 q)) es)"
  by (cases es)
    (auto simp add: similarities_def np_array_def list_all_iff zip_map1 zip_map2
       zip_same_conv_map comp_def)

lemma similarities_empty: "similarities q [] = Inl (if q = [] then AxisError else ValueError)"
  by (simp add: similarities_def np_array_def)

lemma dot_self_nonneg: "0 \<le> dot xs xs"
  by (induction xs) simp_all

lemma dot_self_zero: "dot xs xs = 0 \<Longrightarrow> list_all (\<lambda>x. x = 0) xs"
proof (induction xs)
  case Nil
  then show ?case by simp
next
  case (Cons x xs)
  have a: "0 \<le> x * x" by simp
  have b: "0 \<le> dot xs xs" by (rule dot_self_nonneg)
  from Cons.prems have "x * x + dot xs xs = 0" by simp
  with a b have "x * x = 0" "dot xs xs = 0" by linarith+
  with Cons.IH show ?case by simp
qed

lemma dot_zero_left: "list_all (\<lambda>x. x = 0) xs \<Longrightarrow> dot xs ys = 0"
  by (induction xs ys rule: dot.induct) simp_all

lemma dot_zero_right: "list_all (\<lambda>y. y = 0) ys \<Longrightarrow> dot xs ys = 0"
  by (induction xs ys rule: dot.induct) simp_all

lemma norm2_zero: "norm2 xs = 0 \<Longrightarrow> list_all (\<lambda>x. x = 0) xs"
  by (simp add: norm2_def dot_self_zero)

lemma top_indices_Mat:
  "es \<noteq> [] \<Longrightarrow> list_all (\<lambda>r. length r = length q) es \<Longrightarrow>
   top_indices q es k =
     Inr (slice_from (- k) (argsort (map (\<lambda>r. fdiv (dot r q) (norm2 r * norm2 q)) es)))"
  by (simp add: top_indices_def similarities_Mat)

lemma set_slice_from: "set (slice_from start xs) \<subseteq> set xs"
  using slice_from_drop [of start xs] by (auto dest: in_set_dropD)

lemma distinct_slice_from: "distinct xs \<Longrightarrow> distinct (slice_from start xs)"
  using slice_from_drop [of start xs] by auto

lemma sorted_wrt_slice_from: "sorted_wrt R xs \<Longrightarrow> sorted_wrt R (slice_from start xs)"
  using slice_from_drop [of start xs] by (auto intro: sorted_wrt_drop)

lemma slice_from_all: "1 \<le> k \<Longrightarrow> length xs \<le> nat k \<Longrightarrow> slice_from (- k) xs = xs"
  by (simp add: slice_from_last)

lemma last_slice_from: "1 \<le> k \<Longrightarrow> xs \<noteq> [] \<Longrightarrow>
  slice_from (- k) xs \<noteq> [] \<and> last (slice_from (- k) xs) = last xs"
proof -
  assume k: "1 \<le> k" and xs: "xs \<noteq> []"
  from k have "0 < nat k" by simp
  moreover from xs have "0 < length xs" by simp
  ultimately have "length xs - nat k < length xs" by arith
  then show ?thesis using k by (simp add: slice_from_last)
qed

lemma sorted_wrt_last:
  "sorted_wrt R xs \<Longrightarrow> (\<And>x. R x x) \<Longrightarrow> x \<in> set xs \<Longrightarrow> R x (last xs)"
  by (induction xs) auto

subsection \<open>The store of the specification's end-to-end scenario\<close>

lemma sims_ex: "similarities [1, 0] [[1, 0], [0, 1]] = Inr [Num 1, Num 0]"
  by (simp add: similarities_def np_array_def norm2_def fdiv_def)

lemma top_ex: "top_indices [1, 0] [[1, 0], [0, 1]] 2 = Inr [1, 0]"
  by (simp add: top_indices_def sims_ex argsort_def slice_from_def np_lt_def upt_rec)

subsection \<open>The empty index\<close>

text \<open>
  Claim C3, as amended. On an empty list of embeddings \<open>find_most_similar\<close> returns nothing:
  it raises for every query, every list of texts and every \<open>top_k\<close>. \<open>np.array([])\<close> has
  shape \<open>(0,)\<close>, so for a query with at least one component \<open>np.dot\<close> raises \<open>ValueError\<close>
  (shapes not aligned), and for a query with no component the product is a scalar and
  \<open>np.linalg.norm(..., axis=1)\<close> raises \<open>AxisError\<close>.
\<close>

theorem find_most_similar_empty_raises:
  "find_most_similar q [] texts k = Inl (if q = [] then AxisError else ValueError)"
  by (simp add: find_most_similar_def top_indices_def similarities_empty)

theorem find_most_similar_empty_raises_witness:
  "find_most_similar [1, 0] [] ([] :: string list) 3 = Inl ValueError \<and>
   find_most_similar [] [] ([] :: string list) 3 = Inl AxisError"
  using find_most_similar_empty_raises [of "[1, 0]" "[] :: string list" 3]
    find_most_similar_empty_raises [of "[]" "[] :: string list" 3]
  by simp

theorem find_most_similar_empty_counterexample:
  "find_most_similar [1, 0] [] ([] :: string list) default_top_k = Inl ValueError \<and>
   find_most_similar [1, 0] [] ([] :: string list) default_top_k \<noteq> Inr []"
  by (simp add: find_most_similar_def top_indices_def similarities_def np_array_def)

subsection \<open>How many records are returned\<close>

text \<open>
  Claim C6, as amended. For an index of \<open>N \<ge> 1\<close> vectors, all of the dimension of the
  query, with as many texts, and for \<open>top_k \<ge> 1\<close>, \<open>find_most_similar\<close> returns the texts at
  \<open>min(top_k, N)\<close> pairwise distinct stored indices; when \<open>top_k \<ge> N\<close> these are all \<open>N\<close>
  indices.
\<close>

theorem find_most_similar_cardinality:
  assumes "es \<noteq> []" and "list_all (\<lambda>r. length r = length q) es"
    and "length texts = length es" and "1 \<le> k"
  shows "\<exists>idx. top_indices q es k = Inr idx \<and>
           find_most_similar q es texts k = Inr (map ((!) texts) idx) \<and>
           length idx = min (nat k) (length es) \<and>
           distinct idx \<and> set idx \<subseteq> {0..<length es} \<and>
           (length es \<le> nat k \<longrightarrow> set idx = {0..<length es})"
proof -
  define sims where "sims = map (\<lambda>r. fdiv (dot r q) (norm2 r * norm2 q)) es"
  define idx where "idx = slice_from (- k) (argsort sims)"
  have n: "length sims = length es" by (simp add: sims_def)
  have ti: "top_indices q es k = Inr idx"
    using assms(1,2) by (simp add: top_indices_Mat idx_def sims_def)
  have sub: "set idx \<subseteq> {0..<length es}"
    using set_slice_from [of "- k" "argsort sims"] by (simp add: idx_def set_argsort n)
  then have "list_all (\<lambda>i. i < length texts) idx"
    by (auto simp add: list_all_iff assms(3))
  then have fms: "find_most_similar q es texts k = Inr (map ((!) texts) idx)"
    by (simp add: find_most_similar_def ti lookup_all_eq)
  have len: "length idx = min (nat k) (length es)"
    using assms(4) by (simp add: idx_def length_slice_from_last length_argsort n)
  have dis: "distinct idx"
    by (simp add: idx_def distinct_slice_from distinct_argsort)
  have all: "length es \<le> nat k \<longrightarrow> set idx = {0..<length es}"
    using assms(4) by (simp add: idx_def slice_from_all length_argsort set_argsort n)
  from ti fms len dis sub all show ?thesis by blast
qed

theorem find_most_similar_cardinality_witness:
  "\<exists>idx. top_indices [1, 0] [[1, 0], [0, 1]] 2 = Inr idx \<and>
     find_most_similar [1, 0] [[1, 0], [0, 1]] [''a'', ''b''] 2 = Inr (map ((!) [''a'', ''b'']) idx) \<and>
     length idx = 2 \<and> distinct idx \<and> set idx = {0, 1}"
  using find_most_similar_cardinality [of "[[1, 0], [0, 1]]" "[1, 0]" "[''a'', ''b'']" 2]
  by (auto simp add: atLeastLessThan_def lessThan_def atLeast_def)

theorem find_most_similar_cardinality_counterexample:
  "find_most_similar [1, 0] [] ([] :: string list) 1 = Inl ValueError \<and>
   min (nat 1) (length ([] :: real list list)) = 0"
  by (simp add: find_most_similar_def top_indices_def similarities_def np_array_def)

subsection \<open>The order of the result\<close>

text \<open>
  Claim C1, as amended. For an index of \<open>N \<ge> 1\<close> vectors, all of the dimension of the
  query, with as many texts, and for \<open>top_k \<ge> 1\<close>, \<open>find_most_similar\<close> returns its records
  lowest score first: along the result the scores never decrease in the order \<open>np.argsort\<close>
  sorts by (for two numbers \<open>np_le\<close> is \<open>\<le>\<close>, and not-a-number ranks above every number),
  and the last record returned has the highest score of the whole store.
\<close>

theorem find_most_similar_ascending:
  assumes "es \<noteq> []" and "list_all (\<lambda>r. length r = length q) es"
    and "length texts = length es" and "1 \<le> k"
  shows "\<exists>sims idx. similarities q es = Inr sims \<and> top_indices q es k = Inr idx \<and>
           find_most_similar q es texts k = Inr (map ((!) texts) idx) \<and>
           sorted_wrt (\<lambda>i j. np_le (sims ! i) (sims ! j)) idx \<and>
           idx \<noteq> [] \<and> (\<forall>j<length sims. np_le (sims ! j) (sims ! last idx))"
proof -
  define sims where "sims = map (\<lambda>r. fdiv (dot r q) (norm2 r * norm2 q)) es"
  define idx where "idx = slice_from (- k) (argsort sims)"
  have n: "length sims = length es" by (simp add: sims_def)
  have si: "similarities q es = Inr sims"
    using assms(1,2) by (simp add: similarities_Mat sims_def)
  have ti: "top_indices q es k = Inr idx"
    using assms(1,2) by (simp add: top_indices_Mat idx_def sims_def)
  have "set idx \<subseteq> {0..<length es}"
    using set_slice_from [of "- k" "argsort sims"] by (simp add: idx_def set_argsort n)
  then have "list_all (\<lambda>i. i < length texts) idx"
    by (auto simp add: list_all_iff assms(3))
  then have fms: "find_most_similar q es texts k = Inr (map ((!) texts) idx)"
    by (simp add: find_most_similar_def ti lookup_all_eq)
  have srt: "sorted_wrt (\<lambda>i j. np_le (sims ! i) (sims ! j)) idx"
    by (simp add: idx_def sorted_wrt_slice_from sorted_argsort)
  have ne: "argsort sims \<noteq> []"
    using assms(1) length_argsort [of sims] n by auto
  have lst: "idx \<noteq> [] \<and> last idx = last (argsort sims)"
    using last_slice_from [OF assms(4) ne] by (simp add: idx_def)
  have top: "\<forall>j<length sims. np_le (sims ! j) (sims ! last idx)"
  proof (intro allI impI)
    fix j assume "j < length sims"
    then have "j \<in> set (argsort sims)" by (simp add: set_argsort)
    with sorted_wrt_last [of "\<lambda>i j. np_le (sims ! i) (sims ! j)" "argsort sims" j]
      sorted_argsort [of sims]
    have "np_le (sims ! j) (sims ! last (argsort sims))"
      by (simp add: np_le_refl)
    with lst show "np_le (sims ! j) (sims ! last idx)" by simp
  qed
  from si ti fms srt lst top show ?thesis by blast
qed

theorem find_most_similar_ascending_witness:
  "\<exists>sims idx. similarities [1, 0] [[1, 0], [0, 1]] = Inr sims \<and>
     top_indices [1, 0] [[1, 0], [0, 1]] 2 = Inr idx \<and>
     find_most_similar [1, 0] [[1, 0], [0, 1]] [''a'', ''b''] 2 = Inr (map ((!) [''a'', ''b'']) idx) \<and>
     sorted_wrt (\<lambda>i j. np_le (sims ! i) (sims ! j)) idx \<and> idx \<noteq> []"
  using find_most_similar_ascending [of "[[1, 0], [0, 1]]" "[1, 0]" "[''a'', ''b'']" 2]
  by auto

theorem find_most_similar_descending_counterexample:
  "find_most_similar [1, 0] [[1, 0], [0, 1]]
     [''Microsoft invests $80B in AI'', ''Nvidia GPUs power AI training''] 2 =
   Inr [''Nvidia GPUs power AI training'', ''Microsoft invests $80B in AI''] \<and>
   top_indices [1, 0] [[1, 0], [0, 1]] 2 = Inr [1, 0] \<and>
   similarities [1, 0] [[1, 0], [0, 1]] = Inr [Num 1, Num 0] \<and>
   fl_less (Num 0) (Num 1)"
  by (simp add: find_most_similar_def top_ex sims_ex)

subsection \<open>All-zero vectors\<close>

text \<open>
  Claim C2, as amended. For an index of \<open>N \<ge> 1\<close> vectors, all of the dimension of the
  query: if every component of the query, or every component of the stored vector \<open>i\<close>,
  is zero, the computation does not raise and the similarity of that pair is not-a-number
  (the quotient \<open>0/0\<close>), not \<open>0.0\<close>. The all-zero vectors are the vectors of norm zero; a
  vector with a non-zero component whose float64 norm underflows to \<open>0.0\<close> is not covered.
\<close>

theorem similarity_zero_vector_is_nan:
  assumes "es \<noteq> []" and "list_all (\<lambda>r. length r = length q) es"
    and "i < length es"
    and "list_all (\<lambda>x. x = 0) q \<or> list_all (\<lambda>x. x = 0) (es ! i)"
  shows "\<exists>sims. similarities q es = Inr sims \<and> length sims = length es \<and> sims ! i = NaN"
proof -
  have d: "dot (es ! i) q = 0"
    using assms(4) by (auto intro: dot_zero_left dot_zero_right)
  have m: "norm2 (es ! i) * norm2 q = 0"
    using assms(4) by (auto simp add: norm2_def dot_zero_left)
  have "fdiv (dot (es ! i) q) (norm2 (es ! i) * norm2 q) = NaN"
    by (simp add: d m fdiv_def)
  with assms(1,2,3) show ?thesis
    by (simp add: similarities_Mat)
qed

theorem similarity_zero_vector_is_nan_witness:
  "\<exists>sims. similarities [0, 0] [[1, 0], [0, 1]] = Inr sims \<and> length sims = 2 \<and> sims ! 1 = NaN"
  using similarity_zero_vector_is_nan [of "[[1, 0], [0, 1]]" "[0, 0]" 1]
  by auto

theorem similarity_zero_vector_counterexample:
  "similarities [0, 0] [[1, 0]] = Inr [NaN] \<and> similarities [1, 0] [[0, 0]] = Inr [NaN] \<and>
   NaN \<noteq> Num 0"
  by (simp add: similarities_def np_array_def norm2_def fdiv_def)

subsection \<open>\<open>strip\<close> and the lines of a file\<close>

lemma all_dropWhile_iff: "(\<forall>x\<in>set (dropWhile P s). P x) \<longleftrightarrow> (\<forall>x\<in>set s. P x)"
  by (induction s) auto

lemma strip_Nil_iff: "strip s = [] \<longleftrightarrow> list_all is_space s"
  by (simp add: strip_def list_all_iff all_dropWhile_iff)

lemma rev_dropWhile_decomp:
  "rev (dropWhile P (rev b)) @ rev (takeWhile P (rev b)) = b"
proof -
  have "rev (takeWhile P (rev b) @ dropWhile P (rev b)) = b"
    by (simp only: takeWhile_dropWhile_id rev_rev_ident)
  then show ?thesis by (simp only: rev_append)
qed

lemma strip_decomp:
  "s = takeWhile is_space s @ strip s @
       rev (takeWhile is_space (rev (dropWhile is_space s)))"
  unfolding strip_def
  by (simp only: rev_dropWhile_decomp takeWhile_dropWhile_id)

lemma strip_hd: "strip s \<noteq> [] \<Longrightarrow> \<not> is_space (hd (strip s))"
proof -
  assume ne: "strip s \<noteq> []"
  have b: "dropWhile is_space s = strip s @ rev (takeWhile is_space (rev (dropWhile is_space s)))"
    unfolding strip_def by (simp only: rev_dropWhile_decomp)
  have bne: "dropWhile is_space s \<noteq> []"
  proof
    assume "dropWhile is_space s = []"
    then have "strip s = []" by (simp add: strip_def all_dropWhile_iff)
    with ne show False by simp
  qed
  from b ne have "hd (dropWhile is_space s) = hd (strip s)"
    by (metis hd_append2)
  moreover from bne have "\<not> is_space (hd (dropWhile is_space s))" by (rule hd_dropWhile)
  ultimately show ?thesis by simp
qed

lemma strip_last: "strip s \<noteq> [] \<Longrightarrow> \<not> is_space (last (strip s))"
proof -
  assume ne: "strip s \<noteq> []"
  then have dne: "dropWhile is_space (rev (dropWhile is_space s)) \<noteq> []"
    by (simp add: strip_def)
  then have "\<not> is_space (hd (dropWhile is_space (rev (dropWhile is_space s))))"
    by (rule hd_dropWhile)
  with dne show ?thesis by (simp add: strip_def last_rev)
qed

lemma concat_split_lines: "concat (split_lines acc cs) = acc @ cs"
  by (induction cs arbitrary: acc) auto

lemma concat_file_lines: "concat (file_lines content) = translate_newlines content"
  by (simp add: file_lines_def concat_split_lines)

lemma translate_newlines_no_CR: "CR \<notin> set (translate_newlines cs)"
  by (induction cs rule: translate_newlines.induct) (auto simp add: CR_def LF_def)

lemma comprehension_filter:
  "[strip line. line \<leftarrow> xs, strip line \<noteq> []] = map strip (filter (\<lambda>l. \<not> blank l) xs)"
  by (induction xs) (simp_all add: blank_def strip_Nil_iff)

lemma is_space_simps:
  "is_space (CHR 0x0A)" "is_space (CHR 0x09)" "is_space (CHR '' '')" "is_space (CHR 0x0D)"
  "\<not> is_space (CHR ''a'')" "\<not> is_space (CHR ''b'')" "\<not> is_space (CHR ''c'')"
  "\<not> is_space (CHR ''d'')"
  by (simp_all add: is_space_def)

lemma top_ex3: "top_indices [1, 0] [[1, 0], [0, 1]] 3 = Inr [1, 0]"
  by (simp add: top_indices_def sims_ex argsort_def slice_from_def np_lt_def upt_rec)

lemma fms_ex3:
  "find_most_similar [1, 0] [[1, 0], [0, 1]] [''a'', ''b''] 3 = Inr [''b'', ''a'']"
  by (simp add: find_most_similar_def top_ex3)

lemma str_join_closed_form:
  "ts \<noteq> [] \<Longrightarrow> str_join sep ts = concat (map (\<lambda>t. t @ sep) (butlast ts)) @ last ts"
  by (induction sep ts rule: str_join.induct) simp_all

subsection \<open>The content loader\<close>

text \<open>
  Claim C7. When \<open>content_data/content.txt\<close> can be read, \<open>load_content\<close> returns one string
  for every non-blank line of the file, in the order of the lines and with the blank lines
  dropped: each returned string is its line without the leading and the trailing
  whitespace (the line is the string between two runs of whitespace, and the string is not
  empty and neither starts nor ends with whitespace). The call leaves the file as it was,
  and reading again returns the same sequence.
\<close>

theorem load_content_lines:
  assumes "content_txt w = Some content"
  shows "\<exists>out. load_content w = (Inr out, w) \<and>
           list_all2
             (\<lambda>t l. (\<exists>pre post. l = pre @ t @ post \<and> list_all is_space pre \<and>
                                  list_all is_space post) \<and>
                    t \<noteq> [] \<and> \<not> is_space (hd t) \<and> \<not> is_space (last t))
             out (filter (\<lambda>l. \<not> blank l) (file_lines content)) \<and>
           load_content (snd (load_content w)) = (Inr out, w)"
proof -
  define ls where "ls = filter (\<lambda>l. \<not> blank l) (file_lines content)"
  have flt: "[strip line. line \<leftarrow> file_lines content, strip line \<noteq> []] = map strip ls"
    by (simp only: comprehension_filter ls_def)
  have lc: "load_content w = (Inr (map strip ls), w)"
    using assms by (simp add: load_content_def flt)
  have each: "\<And>l. l \<in> set ls \<Longrightarrow>
      (\<exists>pre post. l = pre @ strip l @ post \<and> list_all is_space pre \<and> list_all is_space post) \<and>
      strip l \<noteq> [] \<and> \<not> is_space (hd (strip l)) \<and> \<not> is_space (last (strip l))"
  proof -
    fix l assume "l \<in> set ls"
    then have ne: "strip l \<noteq> []" by (simp add: ls_def blank_def strip_Nil_iff)
    have "list_all is_space (takeWhile is_space l)"
      by (auto simp add: list_all_iff dest: set_takeWhileD)
    moreover have "list_all is_space (rev (takeWhile is_space (rev (dropWhile is_space l))))"
      by (auto simp add: list_all_iff dest: set_takeWhileD)
    ultimately have "\<exists>pre post. l = pre @ strip l @ post \<and> list_all is_space pre \<and>
        list_all is_space post"
      using strip_decomp [of l] by blast
    with ne strip_hd [OF ne] strip_last [OF ne]
    show "(\<exists>pre post. l = pre @ strip l @ post \<and> list_all is_space pre \<and> list_all is_space post) \<and>
      strip l \<noteq> [] \<and> \<not> is_space (hd (strip l)) \<and> \<not> is_space (last (strip l))"
      by blast
  qed
  have l2: "list_all2
             (\<lambda>t l. (\<exists>pre post. l = pre @ t @ post \<and> list_all is_space pre \<and>
                                  list_all is_space post) \<and>
                    t \<noteq> [] \<and> \<not> is_space (hd t) \<and> \<not> is_space (last t))
             (map strip ls) ls"
    using each by (simp add: list_all2_map1 list_all2_same)
  from lc l2 show ?thesis unfolding ls_def by simp
qed

theorem load_content_lines_witness:
  "content_txt \<lparr>content_txt = Some (''a'' @ [LF, LF] @ ''  b c '' @ [CR, LF, CHR 0x09, LF] @ ''d''),
                 embedding_json = NoFile, stored_data = None\<rparr> =
     Some (''a'' @ [LF, LF] @ ''  b c '' @ [CR, LF, CHR 0x09, LF] @ ''d'') \<and>
   fst (load_content
          \<lparr>content_txt = Some (''a'' @ [LF, LF] @ ''  b c '' @ [CR, LF, CHR 0x09, LF] @ ''d''),
           embedding_json = NoFile, stored_data = None\<rparr>) =
     Inr [''a'', ''b c'', ''d''] \<and>
   fst (load_content (snd (load_content
          \<lparr>content_txt = Some (''a'' @ [LF, LF] @ ''  b c '' @ [CR, LF, CHR 0x09, LF] @ ''d''),
           embedding_json = NoFile, stored_data = None\<rparr>))) =
     Inr [''a'', ''b c'', ''d'']"
  using load_content_lines
    [of "\<lparr>content_txt = Some (''a'' @ [LF, LF] @ ''  b c '' @ [CR, LF, CHR 0x09, LF] @ ''d''),
          embedding_json = NoFile, stored_data = None\<rparr>"
        "''a'' @ [LF, LF] @ ''  b c '' @ [CR, LF, CHR 0x09, LF] @ ''d''"]
  by (simp add: load_content_def file_lines_def strip_def is_space_simps LF_def CR_def)

subsection \<open>Saving and loading the store\<close>

text \<open>
  Claim C5. When the directory \<open>embedding_data/\<close> exists, \<open>save_embeddings(texts,
  embeddings)\<close> succeeds, and \<open>load_embeddings()\<close> after it returns the same texts and the
  same vectors, whatever the file held before; the content file and the module global are
  untouched. The equality of the floats rests on \<open>json\<close> writing a float in a form that
  reads back as the same float.
\<close>

theorem save_then_load:
  assumes "embedding_json w \<noteq> NoDirectory"
  shows "\<exists>w'. save_embeddings texts embeddings w = (Inr (), w') \<and>
           load_embeddings w' =
             (Inr \<lparr>doc_texts = texts, doc_embeddings = embeddings\<rparr>, w') \<and>
           content_txt w' = content_txt w \<and> stored_data w' = stored_data w"
  using assms by (cases "embedding_json w") (simp_all add: save_embeddings_def load_embeddings_def)

theorem save_then_load_witness:
  "\<exists>w'. save_embeddings [''a'', ''b''] [[1, 0], [0, 1]]
           \<lparr>content_txt = None, embedding_json = NoFile, stored_data = None\<rparr> = (Inr (), w') \<and>
        load_embeddings w' =
          (Inr \<lparr>doc_texts = [''a'', ''b''], doc_embeddings = [[1, 0], [0, 1]]\<rparr>, w')"
  using save_then_load
    [of "\<lparr>content_txt = None, embedding_json = NoFile, stored_data = None\<rparr>"
        "[''a'', ''b'']" "[[1, 0], [0, 1]]"]
  by auto

text \<open>
  Claim C4, as amended. \<open>load_embeddings\<close> checks nothing about the artifact: whenever the
  file exists it returns the artifact as stored, whatever the lengths of its texts and
  embeddings and the widths of its vectors. The module body of \<open>9_agno_qa.py\<close> keeps it in
  \<open>stored_data\<close>, and \<open>answer_question\<close> passes its two lists to \<open>find_most_similar\<close>, where
  a shape that numpy rejects raises only then.
\<close>

theorem load_embeddings_unchecked:
  assumes "embedding_json w = File data" and "emb question = Inr qe"
  shows "load_embeddings w = (Inr data, w) \<and>
         module_init w = w\<lparr>stored_data := Some data\<rparr> \<and>
         answer_context emb w question =
           (case find_most_similar qe (doc_embeddings data) (doc_texts data) default_top_k of
              Inl e \<Rightarrow> Inl e
            | Inr relevant_texts \<Rightarrow> Inr (str_join [LF, LF] relevant_texts), w)"
  using assms by (simp add: load_embeddings_def module_init_def answer_context_def split: sum.splits)

theorem load_embeddings_unchecked_witness:
  "load_embeddings
     \<lparr>content_txt = None,
      embedding_json = File \<lparr>doc_texts = [''a'', ''b'', ''c''], doc_embeddings = [[1, 0], [0, 1]]\<rparr>,
      stored_data = None\<rparr> =
   (Inr \<lparr>doc_texts = [''a'', ''b'', ''c''], doc_embeddings = [[1, 0], [0, 1]]\<rparr>,
    \<lparr>content_txt = None,
      embedding_json = File \<lparr>doc_texts = [''a'', ''b'', ''c''], doc_embeddings = [[1, 0], [0, 1]]\<rparr>,
      stored_data = None\<rparr>) \<and>
   fst (answer_context (\<lambda>t. Inr [1, 0])
     \<lparr>content_txt = None,
      embedding_json = File \<lparr>doc_texts = [''a'', ''b'', ''c''], doc_embeddings = [[1, 0], [0, 1]]\<rparr>,
      stored_data = None\<rparr> ''q'') = Inr (''b'' @ [LF, LF] @ ''a'')"
  using load_embeddings_unchecked
    [of "\<lparr>content_txt = None,
      embedding_json = File \<lparr>doc_texts = [''a'', ''b'', ''c''], doc_embeddings = [[1, 0], [0, 1]]\<rparr>,
      stored_data = None\<rparr>"
      "\<lparr>doc_texts = [''a'', ''b'', ''c''], doc_embeddings = [[1, 0], [0, 1]]\<rparr>"
      "\<lambda>t. Inr [1, 0]" "''q''" "[1, 0]"]
  by (simp add: find_most_similar_def default_top_k_def top_ex3)

theorem load_embeddings_malformed_counterexample:
  "fst (load_embeddings
     \<lparr>content_txt = None,
      embedding_json = File \<lparr>doc_texts = [''a'', ''b'', ''c''], doc_embeddings = [[1, 0], [0, 1]]\<rparr>,
      stored_data = None\<rparr>) =
     Inr \<lparr>doc_texts = [''a'', ''b'', ''c''], doc_embeddings = [[1, 0], [0, 1]]\<rparr> \<and>
   length [''a'', ''b'', ''c''] \<noteq> length [[1, 0], [0, 1 :: real]] \<and>
   fst (load_embeddings
     \<lparr>content_txt = None,
      embedding_json = File \<lparr>doc_texts = [''a'', ''b''], doc_embeddings = [[1, 0], [1]]\<rparr>,
      stored_data = None\<rparr>) =
     Inr \<lparr>doc_texts = [''a'', ''b''], doc_embeddings = [[1, 0], [1]]\<rparr> \<and>
   length [1, 0 :: real] \<noteq> length [1 :: real] \<and>
   fst (answer_context (\<lambda>t. Inr [1, 0])
     \<lparr>content_txt = None,
      embedding_json = File \<lparr>doc_texts = [''a'', ''b''], doc_embeddings = [[1, 0], [1]]\<rparr>,
      stored_data = None\<rparr> ''q'') = Inl ValueError"
  by (simp add: load_embeddings_def answer_context_def find_most_similar_def top_indices_def
      similarities_def np_array_def)

subsection \<open>The context string\<close>

text \<open>
  Claim C8. When the question has an embedding and \<open>find_most_similar\<close>, called with that
  embedding, the stored vectors, the stored texts and the default \<open>top_k = 3\<close>, returns
  the texts \<open>ts\<close>, the context built by \<open>get_relevant_context\<close> and by \<open>answer_question\<close>
  is \<open>ts\<close> joined in that order by two line feeds, with nothing else added: every text
  but the last followed by the two line feeds, then the last text. \<open>answer_question\<close>
  sends it to the completion model between \<open>Context:\<close> and the question.
\<close>

theorem context_is_joined_top_k:
  assumes "emb question = Inr qe"
    and "find_most_similar qe (doc_embeddings data) (doc_texts data) 3 = Inr ts"
  shows "(stored_data w = Some data \<longrightarrow>
            get_relevant_context emb w question = (Inr (str_join [LF, LF] ts), w)) \<and>
         (embedding_json w = File data \<longrightarrow>
            answer_context emb w question = (Inr (str_join [LF, LF] ts), w) \<and>
            answer_question emb chat w question =
              (chat system_prompt
                 (''Context:'' @ [LF] @ str_join [LF, LF] ts @ [LF, LF] @ ''Question: '' @ question),
               w)) \<and>
         str_join [LF, LF] ts =
           (if ts = [] then [] else concat (map (\<lambda>t. t @ [LF, LF]) (butlast ts)) @ last ts)"
  using assms
  by (simp add: get_relevant_context_def answer_context_def answer_question_def
      load_embeddings_def default_top_k_def user_prompt_def str_join_closed_form)

theorem context_is_joined_top_k_witness:
  "get_relevant_context (\<lambda>t. Inr [1, 0])
     \<lparr>content_txt = None, embedding_json = NoFile,
      stored_data = Some \<lparr>doc_texts = [''a'', ''b''], doc_embeddings = [[1, 0], [0, 1]]\<rparr>\<rparr> ''q'' =
   (Inr (''b'' @ [LF, LF] @ ''a''),
    \<lparr>content_txt = None, embedding_json = NoFile,
      stored_data = Some \<lparr>doc_texts = [''a'', ''b''], doc_embeddings = [[1, 0], [0, 1]]\<rparr>\<rparr>) \<and>
   fst (answer_question (\<lambda>t. Inr [1, 0]) (\<lambda>s u. Inr u)
     \<lparr>content_txt = None,
      embedding_json = File \<lparr>doc_texts = [''a'', ''b''], doc_embeddings = [[1, 0], [0, 1]]\<rparr>,
      stored_data = None\<rparr> ''q'') =
   Inr (''Context:'' @ [LF] @ ''b'' @ [LF, LF] @ ''a'' @ [LF, LF] @ ''Question: q'')"
  using context_is_joined_top_k
    [of "\<lambda>t. Inr [1, 0]" "''q''" "[1, 0]"
        "\<lparr>doc_texts = [''a'', ''b''], doc_embeddings = [[1, 0], [0, 1]]\<rparr>" "[''b'', ''a'']"
        "\<lparr>content_txt = None, embedding_json = NoFile,
          stored_data = Some \<lparr>doc_texts = [''a'', ''b''], doc_embeddings = [[1, 0], [0, 1]]\<rparr>\<rparr>"
        "\<lambda>s u. Inr u"]
    context_is_joined_top_k
    [of "\<lambda>t. Inr [1, 0]" "''q''" "[1, 0]"
        "\<lparr>doc_texts = [''a'', ''b''], doc_embeddings = [[1, 0], [0, 1]]\<rparr>" "[''b'', ''a'']"
        "\<lparr>content_txt = None,
          embedding_json = File \<lparr>doc_texts = [''a'', ''b''], doc_embeddings = [[1, 0], [0, 1]]\<rparr>,
          stored_data = None\<rparr>"
        "\<lambda>s u. Inr u"]
  by (simp add: fms_ex3)

subsection \<open>The query path writes nothing\<close>

text \<open>
  Claim C9. A query changes neither the files nor the loaded store. \<open>find_most_similar\<close>
  only reads its arguments (\<open>np.array\<close> copies them, the sorted and the sliced arrays are
  new objects), so it is a function from values to a value; its callers are the functions
  that could write, and after \<open>answer_question\<close> and after \<open>get_relevant_context\<close> the
  content file, the persisted artifact and the global \<open>stored_data\<close> are what they were
  before, for every outcome of the embedding call, of the search and of the completion
  call. The embedding of the question is therefore neither appended to the index nor
  written to the artifact.
\<close>

theorem query_leaves_world_unchanged:
  "snd (answer_context emb w question) = w \<and>
   snd (answer_question emb chat w question) = w \<and>
   snd (get_relevant_context emb w question) = w"
  by (simp add: answer_context_def answer_question_def get_relevant_context_def
      load_embeddings_def split: sum.splits option.splits store_file.splits prod.splits)

theorem query_leaves_world_unchanged_witness:
  "snd (answer_question (\<lambda>t. Inr [1, 0]) (\<lambda>s u. Inr u)
     \<lparr>content_txt = None,
      embedding_json = File \<lparr>doc_texts = [''a'', ''b''], doc_embeddings = [[1, 0], [0, 1]]\<rparr>,
      stored_data = None\<rparr> ''q'') =
     \<lparr>content_txt = None,
      embedding_json = File \<lparr>doc_texts = [''a'', ''b''], doc_embeddings = [[1, 0], [0, 1]]\<rparr>,
      stored_data = None\<rparr> \<and>
   snd (get_relevant_context (\<lambda>t. Inr [1, 0])
     \<lparr>content_txt = None, embedding_json = NoFile,
      stored_data = Some \<lparr>doc_texts = [''a'', ''b''], doc_embeddings = [[1, 0], [0, 1]]\<rparr>\<rparr> ''q'') =
     \<lparr>content_txt = None, embedding_json = NoFile,
      stored_data = Some \<lparr>doc_texts = [''a'', ''b''], doc_embeddings = [[1, 0], [0, 1]]\<rparr>\<rparr>"
  using query_leaves_world_unchanged
    [of "\<lambda>t. Inr [1, 0]"
        "\<lparr>content_txt = None,
          embedding_json = File \<lparr>doc_texts = [''a'', ''b''], doc_embeddings = [[1, 0], [0, 1]]\<rparr>,
          stored_data = None\<rparr>" "''q''" "\<lambda>s u. Inr u"]
    query_leaves_world_unchanged
    [of "\<lambda>t. Inr [1, 0]"
        "\<lparr>content_txt = None, embedding_json = NoFile,
          stored_data = Some \<lparr>doc_texts = [''a'', ''b''], doc_embeddings = [[1, 0], [0, 1]]\<rparr>\<rparr>"
        "''q''" "\<lambda>s u. Inr u"]
  by simp

subsection \<open>The selection does not read the texts\<close>

text \<open>
  Claim C10. The indices \<open>find_most_similar\<close> selects are \<open>top_indices\<close>, computed from the
  query vector, the stored vectors and \<open>top_k\<close> alone. For two lists of texts of one
  length, two runs with the same query, vectors and \<open>top_k\<close> end alike: both raise the same
  exception, or each returns the texts of its own list at the same indices, in the same
  order. A run is a function of its inputs, so equal inputs give equal outputs.
\<close>

theorem selection_ignores_texts:
  assumes "length texts1 = length texts2"
  shows "(case top_indices q es k of
            Inl e \<Rightarrow>
              find_most_similar q es texts1 k = Inl e \<and> find_most_similar q es texts2 k = Inl e
          | Inr idx \<Rightarrow>
              if list_all (\<lambda>i. i < length texts1) idx
              then find_most_similar q es texts1 k = Inr (map ((!) texts1) idx) \<and>
                   find_most_similar q es texts2 k = Inr (map ((!) texts2) idx)
              else find_most_similar q es texts1 k = Inl IndexError \<and>
                   find_most_similar q es texts2 k = Inl IndexError)"
  using assms by (simp add: find_most_similar_def lookup_all_eq split: sum.splits)

theorem selection_ignores_texts_witness:
  "top_indices [1, 0] [[1, 0], [0, 1]] 2 = Inr [1, 0] \<and>
   find_most_similar [1, 0] [[1, 0], [0, 1]] [''a'', ''b''] 2 = Inr [''b'', ''a''] \<and>
   find_most_similar [1, 0] [[1, 0], [0, 1]] [''x'', ''y''] 2 = Inr [''y'', ''x'']"
  using selection_ignores_texts [of "[''a'', ''b'']" "[''x'', ''y'']" "[1, 0]" "[[1, 0], [0, 1]]" 2]
  by (simp add: top_ex)

end
